theory Spec2Isabelle
  imports Main "HOL-Library.Multiset"
begin

section \<open>Errors thrown by the program and by the store driver\<close>

text \<open>
  A JavaScript exception is a value. \<open>Error m\<close> is \<^verbatim>\<open>new Error(m)\<close>;
  \<open>SqliteError code m\<close> is the exception the store driver throws, with its
  \<^verbatim>\<open>code\<close> and \<^verbatim>\<open>message\<close>. Every handler reports \<^verbatim>\<open>error.message\<close>.
\<close>

datatype js_error = Error string | SqliteError string string

fun error_message :: "js_error \<Rightarrow> string" where
  "error_message (Error m) = m"
| "error_message (SqliteError c m) = m"

section \<open>Storage Gateway (src/config/database.js)\<close>

text \<open>
  The module keeps one variable, \<^verbatim>\<open>let db;\<close>, undefined until a connection has been
  assigned to it. A connection is the object \<^verbatim>\<open>new Database(file)\<close> returns.
\<close>

datatype connection = Database string

record gateway =
  db :: "connection option"

definition module_loaded :: gateway where
  "module_loaded = \<lparr>db = None\<rparr>"

definition db_file :: string where
  "db_file = ''../data/maydiv.db''"

text \<open>
  What the driver does during \<^verbatim>\<open>initializeDatabase\<close> is outside the program: each of
  the three driver calls either returns (\<open>None\<close>) or throws (\<open>Some e\<close>).
\<close>

record driver_outcomes =
  open_throws :: "js_error option"
  create_table_throws :: "js_error option"
  add_column_throws :: "js_error option"

text \<open>
  \<^verbatim>\<open>initializeDatabase\<close>: the result is the returned connection or the rethrown error,
  paired with the module state it leaves behind. The assignment to \<^verbatim>\<open>db\<close> happens as
  soon as the constructor has returned, before the schema statements run. The inner
  \<^verbatim>\<open>try/catch\<close> around \<^verbatim>\<open>ALTER TABLE\<close> has an empty handler, which does not look
  at the error it caught.
\<close>

definition initializeDatabase ::
  "driver_outcomes \<Rightarrow> gateway \<Rightarrow> (js_error + connection) \<times> gateway" where
  "initializeDatabase env g =
     (case open_throws env of
        Some e \<Rightarrow> (Inl e, g)
      | None \<Rightarrow>
          (let g1 = g\<lparr>db := Some (Database db_file)\<rparr> in
           case create_table_throws env of
             Some e \<Rightarrow> (Inl e, g1)
           | None \<Rightarrow>
               (case add_column_throws env of
                  Some e \<Rightarrow> (Inr (Database db_file), g1)
                | None \<Rightarrow> (Inr (Database db_file), g1))))"

definition not_initialized :: js_error where
  "not_initialized = Error ''Database not initialized. Call initializeDatabase() first.''"

definition getDatabase :: "gateway \<Rightarrow> js_error + connection" where
  "getDatabase g = (case db g of None \<Rightarrow> Inl not_initialized | Some c \<Rightarrow> Inr c)"

section \<open>The seo table (schema of src/config/database.js)\<close>

text \<open>
  One row of the table \<^verbatim>\<open>seo\<close>, column by column. The four \<^verbatim>\<open>TEXT NOT NULL\<close> columns
  hold a string; the other text columns hold a string or \<^verbatim>\<open>NULL\<close> (\<open>None\<close>).
  \<open>seo_id\<close> is the column \<^verbatim>\<open>id INTEGER PRIMARY KEY AUTOINCREMENT\<close>. \<open>isPublished\<close> is
  the \<^verbatim>\<open>BOOLEAN\<close> column as the store keeps and returns it: the integer 1 for true and
  0 for false. \<^verbatim>\<open>CURRENT_TIMESTAMP\<close> is the reading of the store's clock.
\<close>

type_synonym timestamp = nat

record seo_row =
  seo_id :: int
  pagePath :: string
  pageTitle :: string
  metaTitle :: string
  metaDescription :: string
  content :: "string option"
  "keywords" :: "string option"
  canonicalUrl :: "string option"
  ogTitle :: "string option"
  ogDescription :: "string option"
  ogImage :: "string option"
  twitterTitle :: "string option"
  twitterDescription :: "string option"
  twitterImage :: "string option"
  robots :: "string option"
  seoScore :: int
  isPublished :: int
  createdAt :: timestamp
  updatedAt :: timestamp

text \<open>
  The table is its rows in insertion order together with the counter that
  \<^verbatim>\<open>AUTOINCREMENT\<close> keeps in \<^verbatim>\<open>sqlite_sequence\<close>: the largest id the table has ever
  held.
\<close>

record seo_table =
  seo_rows :: "seo_row list"
  sqlite_sequence :: int

definition empty_table :: seo_table where
  "empty_table = \<lparr>seo_rows = [], sqlite_sequence = 0\<rparr>"

text \<open>
  What the schema enforces: \<^verbatim>\<open>PRIMARY KEY\<close> on \<^verbatim>\<open>id\<close>, \<^verbatim>\<open>UNIQUE\<close> on \<^verbatim>\<open>pagePath\<close>, and
  the \<^verbatim>\<open>AUTOINCREMENT\<close> counter at least every id in the table.
\<close>

definition unique_ids :: "seo_table \<Rightarrow> bool" where
  "unique_ids t = distinct (map seo_id (seo_rows t))"

definition unique_pagePaths :: "seo_table \<Rightarrow> bool" where
  "unique_pagePaths t = distinct (map pagePath (seo_rows t))"

definition sequence_bounds_ids :: "seo_table \<Rightarrow> bool" where
  "sequence_bounds_ids t = list_all (\<lambda>r. seo_id r \<le> sqlite_sequence t) (seo_rows t)"

definition schema_holds :: "seo_table \<Rightarrow> bool" where
  "schema_holds t = (unique_ids t \<and> unique_pagePaths t \<and> sequence_bounds_ids t)"

section \<open>Requests and responses (src/server.js)\<close>

text \<open>
  The JSON body of a create or update request, after the middleware has parsed it.
  A key that is absent, \<^verbatim>\<open>undefined\<close> or \<^verbatim>\<open>null\<close> is \<open>None\<close>; the driver binds all three
  as \<^verbatim>\<open>NULL\<close>. A client may send \<^verbatim>\<open>isPublished\<close> as well; no handler destructures it.
\<close>

record seo_body =
  body_pagePath :: "string option"
  body_pageTitle :: "string option"
  body_metaTitle :: "string option"
  body_metaDescription :: "string option"
  body_content :: "string option"
  body_keywords :: "string option"
  body_canonicalUrl :: "string option"
  body_ogTitle :: "string option"
  body_ogDescription :: "string option"
  body_ogImage :: "string option"
  body_twitterTitle :: "string option"
  body_twitterDescription :: "string option"
  body_twitterImage :: "string option"
  body_robots :: "string option"
  body_seoScore :: "int option"
  body_isPublished :: "bool option"

text \<open>The fifteen values bound to the \<^verbatim>\<open>?\<close> of the INSERT and of the UPDATE.\<close>

record seo_params =
  p_pagePath :: "string option"
  p_pageTitle :: "string option"
  p_metaTitle :: "string option"
  p_metaDescription :: "string option"
  p_content :: "string option"
  p_keywords :: "string option"
  p_canonicalUrl :: "string option"
  p_ogTitle :: "string option"
  p_ogDescription :: "string option"
  p_ogImage :: "string option"
  p_twitterTitle :: "string option"
  p_twitterDescription :: "string option"
  p_twitterImage :: "string option"
  p_robots :: "string option"
  p_seoScore :: int

text \<open>\<^verbatim>\<open>seoScore || 0\<close>: an absent score, and the falsy score 0, give 0.\<close>

definition or_zero :: "int option \<Rightarrow> int" where
  "or_zero v = (case v of None \<Rightarrow> 0 | Some n \<Rightarrow> (if n = 0 then 0 else n))"

text \<open>
  The argument list of \<^verbatim>\<open>.run(...)\<close>, the same in the POST and the PUT handler.
\<close>

definition run_arguments :: "seo_body \<Rightarrow> seo_params" where
  "run_arguments b =
     \<lparr>p_pagePath = body_pagePath b, p_pageTitle = body_pageTitle b,
      p_metaTitle = body_metaTitle b, p_metaDescription = body_metaDescription b,
      p_content = body_content b, p_keywords = body_keywords b,
      p_canonicalUrl = body_canonicalUrl b, p_ogTitle = body_ogTitle b,
      p_ogDescription = body_ogDescription b, p_ogImage = body_ogImage b,
      p_twitterTitle = body_twitterTitle b,
      p_twitterDescription = body_twitterDescription b,
      p_twitterImage = body_twitterImage b, p_robots = body_robots b,
      p_seoScore = or_zero (body_seoScore b)\<rparr>"

text \<open>The record the path lookup answers with when the table has no match.\<close>

record fallback_seo =
  fb_pagePath :: string
  fb_metaTitle :: string
  fb_metaDescription :: string
  fb_keywords :: string
  fb_canonicalUrl :: string
  fb_ogTitle :: string
  fb_ogDescription :: string
  fb_ogImage :: string
  fb_twitterCard :: string
  fb_robots :: string
  fb_seoScore :: int
  fb_isPublished :: bool

datatype seo_data = Row seo_row | Rows "seo_row list" | Fallback fallback_seo

text \<open>
  A response: the HTTP status and the keys of the JSON envelope. A key the handler
  does not write, or writes as \<^verbatim>\<open>undefined\<close>, is \<open>None\<close>.
\<close>

record response =
  status :: nat
  success :: bool
  message :: "string option"
  error :: "string option"
  seoData :: "seo_data option"

section \<open>The statements the handlers run\<close>

text \<open>
  The store engine is not part of the repository; each statement of src/server.js is
  given the meaning the schema of src/config/database.js fixes for it. Ids are
  unbounded integers here (the engine's are 64-bit, and \<^verbatim>\<open>AUTOINCREMENT\<close> starts at 1).
\<close>

definition not_null_failed :: "string \<Rightarrow> js_error" where
  "not_null_failed col =
     SqliteError ''SQLITE_CONSTRAINT_NOTNULL'' (''NOT NULL constraint failed: seo.'' @ col)"

definition unique_failed :: js_error where
  "unique_failed =
     SqliteError ''SQLITE_CONSTRAINT_UNIQUE'' ''UNIQUE constraint failed: seo.pagePath''"

text \<open>A value bound to a \<^verbatim>\<open>NOT NULL\<close> column.\<close>

fun required :: "string \<Rightarrow> string option \<Rightarrow> js_error + string" where
  "required col None = Inl (not_null_failed col)"
| "required col (Some v) = Inr v"

definition max_rowid :: "seo_row list \<Rightarrow> int" where
  "max_rowid rs = fold (\<lambda>r m. max (seo_id r) m) rs 0"

text \<open>
  \<^verbatim>\<open>AUTOINCREMENT\<close>: the new id is one more than the largest id the table holds or has
  ever held.
\<close>

definition next_rowid :: "seo_table \<Rightarrow> int" where
  "next_rowid t = max (sqlite_sequence t) (max_rowid (seo_rows t)) + 1"

text \<open>
  \<^verbatim>\<open>INSERT INTO seo (..., isPublished, createdAt, updatedAt)
  VALUES (?, ..., ?, 1, CURRENT_TIMESTAMP, CURRENT_TIMESTAMP)\<close>.
  The result is the thrown constraint error, or \<^verbatim>\<open>lastInsertRowid\<close> and the new table.
  A statement that throws leaves the table as it was.
\<close>

definition sql_insert ::
  "seo_params \<Rightarrow> timestamp \<Rightarrow> seo_table \<Rightarrow> js_error + (int \<times> seo_table)" where
  "sql_insert p now t =
     (case required ''pagePath'' (p_pagePath p) of Inl e \<Rightarrow> Inl e | Inr pp \<Rightarrow>
     (case required ''pageTitle'' (p_pageTitle p) of Inl e \<Rightarrow> Inl e | Inr pt \<Rightarrow>
     (case required ''metaTitle'' (p_metaTitle p) of Inl e \<Rightarrow> Inl e | Inr mt \<Rightarrow>
     (case required ''metaDescription'' (p_metaDescription p) of Inl e \<Rightarrow> Inl e | Inr md \<Rightarrow>
      if pp \<in> set (map pagePath (seo_rows t)) then Inl unique_failed
      else
        (let i = next_rowid t;
             r = \<lparr>seo_id = i, pagePath = pp, pageTitle = pt, metaTitle = mt,
                  metaDescription = md, content = p_content p, keywords = p_keywords p,
                  canonicalUrl = p_canonicalUrl p, ogTitle = p_ogTitle p,
                  ogDescription = p_ogDescription p, ogImage = p_ogImage p,
                  twitterTitle = p_twitterTitle p,
                  twitterDescription = p_twitterDescription p,
                  twitterImage = p_twitterImage p, robots = p_robots p,
                  seoScore = p_seoScore p, isPublished = 1,
                  createdAt = now, updatedAt = now\<rparr>
         in Inr (i, \<lparr>seo_rows = seo_rows t @ [r], sqlite_sequence = i\<rparr>))))))"

text \<open>The \<^verbatim>\<open>SET\<close> list of the UPDATE, applied to one row.\<close>

definition set_columns ::
  "string \<Rightarrow> string \<Rightarrow> string \<Rightarrow> string \<Rightarrow> seo_params \<Rightarrow> timestamp \<Rightarrow> seo_row \<Rightarrow> seo_row" where
  "set_columns pp pt mt md p now r =
     r\<lparr>pagePath := pp, pageTitle := pt, metaTitle := mt, metaDescription := md,
       content := p_content p, keywords := p_keywords p,
       canonicalUrl := p_canonicalUrl p, ogTitle := p_ogTitle p,
       ogDescription := p_ogDescription p, ogImage := p_ogImage p,
       twitterTitle := p_twitterTitle p,
       twitterDescription := p_twitterDescription p,
       twitterImage := p_twitterImage p, robots := p_robots p,
       seoScore := p_seoScore p, updatedAt := now\<rparr>"

text \<open>
  \<^verbatim>\<open>UPDATE seo SET pagePath = ?, ..., seoScore = ?, updatedAt = CURRENT_TIMESTAMP
  WHERE id = ?\<close>. Constraints are checked on the rows the statement writes: with no
  row of that id nothing is written, nothing is checked and \<^verbatim>\<open>changes\<close> is 0. The
  result is the thrown constraint error, or \<^verbatim>\<open>changes\<close> and the new table.
\<close>

definition sql_update ::
  "seo_params \<Rightarrow> int \<Rightarrow> timestamp \<Rightarrow> seo_table \<Rightarrow> js_error + (nat \<times> seo_table)" where
  "sql_update p i now t =
     (if \<not> list_ex (\<lambda>r. seo_id r = i) (seo_rows t) then Inr (0, t)
      else
       (case required ''pagePath'' (p_pagePath p) of Inl e \<Rightarrow> Inl e | Inr pp \<Rightarrow>
       (case required ''pageTitle'' (p_pageTitle p) of Inl e \<Rightarrow> Inl e | Inr pt \<Rightarrow>
       (case required ''metaTitle'' (p_metaTitle p) of Inl e \<Rightarrow> Inl e | Inr mt \<Rightarrow>
       (case required ''metaDescription'' (p_metaDescription p) of Inl e \<Rightarrow> Inl e | Inr md \<Rightarrow>
        if list_ex (\<lambda>r. seo_id r \<noteq> i \<and> pagePath r = pp) (seo_rows t) then Inl unique_failed
        else
          Inr (length (filter (\<lambda>r. seo_id r = i) (seo_rows t)),
               t\<lparr>seo_rows :=
                    map (\<lambda>r. if seo_id r = i then set_columns pp pt mt md p now r else r)
                      (seo_rows t)\<rparr>))))))"

text \<open>
  \<^verbatim>\<open>DELETE FROM seo WHERE id = ?\<close>: \<^verbatim>\<open>changes\<close> and the new table. The
  \<^verbatim>\<open>AUTOINCREMENT\<close> counter stays.
\<close>

definition sql_delete :: "int \<Rightarrow> seo_table \<Rightarrow> nat \<times> seo_table" where
  "sql_delete i t =
     (length (filter (\<lambda>r. seo_id r = i) (seo_rows t)),
      t\<lparr>seo_rows := filter (\<lambda>r. seo_id r \<noteq> i) (seo_rows t)\<rparr>)"

text \<open>
  \<^verbatim>\<open>SELECT * FROM seo ORDER BY createdAt DESC\<close> with \<^verbatim>\<open>.all()\<close>. The engine leaves the
  order of rows with equal \<^verbatim>\<open>createdAt\<close> open; here it is the later row first.
\<close>

definition sql_select_all :: "seo_table \<Rightarrow> seo_row list" where
  "sql_select_all t = rev (sort_key createdAt (seo_rows t))"

text \<open>
  \<^verbatim>\<open>SELECT * FROM seo WHERE pagePath = ? AND isPublished = 1\<close> with \<^verbatim>\<open>.get(pagePath)\<close>:
  the first matching row, or \<^verbatim>\<open>undefined\<close>.
\<close>

definition sql_select_page :: "string \<Rightarrow> seo_table \<Rightarrow> seo_row option" where
  "sql_select_page p t = find (\<lambda>r. pagePath r = p \<and> isPublished r = 1) (seo_rows t)"

text \<open>\<^verbatim>\<open>SELECT * FROM seo WHERE id = ?\<close> with \<^verbatim>\<open>.get(id)\<close>.\<close>

definition sql_select_id :: "int \<Rightarrow> seo_table \<Rightarrow> seo_row option" where
  "sql_select_id i t = find (\<lambda>r. seo_id r = i) (seo_rows t)"

section \<open>SEO Resource API (src/server.js)\<close>

text \<open>
  Each handler takes the gateway's module state, the request and the table, and gives
  the response and the table it leaves. The \<^verbatim>\<open>id\<close> of a path is the integer the
  segment denotes. The \<^verbatim>\<open>catch\<close> of every handler answers 500 with the error's message.
\<close>

definition caught :: "js_error \<Rightarrow> response" where
  "caught e =
     \<lparr>status = 500, success = False, message = None,
      error = Some (error_message e), seoData = None\<rparr>"

definition seo_not_found :: response where
  "seo_not_found =
     \<lparr>status = 404, success = False, message = None,
      error = Some ''SEO data not found'', seoData = None\<rparr>"

text \<open>\<^verbatim>\<open>app.get('/api/v1/seo', ...)\<close>\<close>

definition get_seo :: "gateway \<Rightarrow> seo_table \<Rightarrow> response \<times> seo_table" where
  "get_seo g t =
     (case getDatabase g of
        Inl e \<Rightarrow> (caught e, t)
      | Inr c \<Rightarrow>
          (\<lparr>status = 200, success = True, message = None, error = None,
            seoData = Some (Rows (sql_select_all t))\<rparr>, t))"

text \<open>The fallback literal of the path lookup.\<close>

definition fallback_data :: "string \<Rightarrow> fallback_seo" where
  "fallback_data p =
     \<lparr>fb_pagePath = p,
      fb_metaTitle = ''MayDiv - '' @ p,
      fb_metaDescription = ''Digital Agency Services'',
      fb_keywords = ''digital agency, web design, development'',
      fb_canonicalUrl = ''https://maydiv.com'' @ p,
      fb_ogTitle = ''MayDiv - '' @ p,
      fb_ogDescription = ''Digital Agency Services'',
      fb_ogImage = ''https://maydiv.com/og-image.jpg'',
      fb_twitterCard = ''summary_large_image'',
      fb_robots = ''index, follow'',
      fb_seoScore = 85,
      fb_isPublished = True\<rparr>"

text \<open>\<^verbatim>\<open>app.get('/api/v1/seo/page/:pagePath', ...)\<close>\<close>

definition get_seo_page :: "gateway \<Rightarrow> string \<Rightarrow> seo_table \<Rightarrow> response \<times> seo_table" where
  "get_seo_page g p t =
     (case getDatabase g of
        Inl e \<Rightarrow> (caught e, t)
      | Inr c \<Rightarrow>
          (case sql_select_page p t of
             Some r \<Rightarrow>
               (\<lparr>status = 200, success = True, message = None, error = None,
                 seoData = Some (Row r)\<rparr>, t)
           | None \<Rightarrow>
               (\<lparr>status = 200, success = True, message = None, error = None,
                 seoData = Some (Fallback (fallback_data p))\<rparr>, t)))"

text \<open>\<^verbatim>\<open>app.post('/api/v1/seo', ...)\<close>\<close>

definition post_seo ::
  "gateway \<Rightarrow> timestamp \<Rightarrow> seo_body \<Rightarrow> seo_table \<Rightarrow> response \<times> seo_table" where
  "post_seo g now b t =
     (case getDatabase g of
        Inl e \<Rightarrow> (caught e, t)
      | Inr c \<Rightarrow>
          (case sql_insert (run_arguments b) now t of
             Inl e \<Rightarrow> (caught e, t)
           | Inr (lastInsertRowid, t') \<Rightarrow>
               (\<lparr>status = 201, success = True,
                 message = Some ''SEO data created successfully'', error = None,
                 seoData = map_option Row (sql_select_id lastInsertRowid t')\<rparr>, t')))"

text \<open>\<^verbatim>\<open>app.put('/api/v1/seo/:id', ...)\<close>\<close>

definition put_seo ::
  "gateway \<Rightarrow> timestamp \<Rightarrow> int \<Rightarrow> seo_body \<Rightarrow> seo_table \<Rightarrow> response \<times> seo_table" where
  "put_seo g now i b t =
     (case getDatabase g of
        Inl e \<Rightarrow> (caught e, t)
      | Inr c \<Rightarrow>
          (case sql_update (run_arguments b) i now t of
             Inl e \<Rightarrow> (caught e, t)
           | Inr (changes, t') \<Rightarrow>
               (if changes = 0 then (seo_not_found, t')
                else
                  (\<lparr>status = 200, success = True,
                    message = Some ''SEO data updated successfully'', error = None,
                    seoData = map_option Row (sql_select_id i t')\<rparr>, t'))))"

text \<open>\<^verbatim>\<open>app.delete('/api/v1/seo/:id', ...)\<close>\<close>

definition delete_seo :: "gateway \<Rightarrow> int \<Rightarrow> seo_table \<Rightarrow> response \<times> seo_table" where
  "delete_seo g i t =
     (case getDatabase g of
        Inl e \<Rightarrow> (caught e, t)
      | Inr c \<Rightarrow>
          (case sql_delete i t of
             (changes, t') \<Rightarrow>
               (if changes = 0 then (seo_not_found, t')
                else
                  (\<lparr>status = 200, success = True,
                    message = Some ''SEO data deleted successfully'', error = None,
                    seoData = None\<rparr>, t'))))"

text \<open>The five routes of the resource, and the router that dispatches to them.\<close>

datatype request =
    GET_seo
  | GET_seo_page string
  | POST_seo seo_body
  | PUT_seo int seo_body
  | DELETE_seo int

fun route :: "gateway \<Rightarrow> timestamp \<Rightarrow> request \<Rightarrow> seo_table \<Rightarrow> response \<times> seo_table" where
  "route g now GET_seo t = get_seo g t"
| "route g now (GET_seo_page p) t = get_seo_page g p t"
| "route g now (POST_seo b) t = post_seo g now b t"
| "route g now (PUT_seo i b) t = put_seo g now i b t"
| "route g now (DELETE_seo i) t = delete_seo g i t"

section \<open>Concrete drivers, bodies and tables\<close>

text \<open>
  Drivers: the store file cannot be opened; it opens but the schema statement
  throws; and the usual start, where the table has just been made with its \<^verbatim>\<open>content\<close>
  column and so the \<^verbatim>\<open>ALTER TABLE\<close> throws.
\<close>

definition store_missing :: driver_outcomes where
  "store_missing =
     \<lparr>open_throws = Some (SqliteError ''SQLITE_CANTOPEN'' ''unable to open database file''),
      create_table_throws = None, add_column_throws = None\<rparr>"

definition schema_step_fails :: driver_outcomes where
  "schema_step_fails =
     \<lparr>open_throws = None,
      create_table_throws = Some (SqliteError ''SQLITE_NOTADB'' ''file is not a database''),
      add_column_throws = None\<rparr>"

definition column_exists :: driver_outcomes where
  "column_exists =
     \<lparr>open_throws = None, create_table_throws = None,
      add_column_throws = Some (SqliteError ''SQLITE_ERROR'' ''duplicate column name: content'')\<rparr>"

text \<open>
  A fourth driver: an older store file that is read-only. Its table exists, so the
  table statement writes nothing and returns; the table has no \<^verbatim>\<open>content\<close> column, so
  the \<^verbatim>\<open>ALTER TABLE\<close> has to write and throws.
\<close>

definition old_store_read_only :: driver_outcomes where
  "old_store_read_only =
     \<lparr>open_throws = None, create_table_throws = None,
      add_column_throws =
        Some (SqliteError ''SQLITE_READONLY'' ''attempt to write a readonly database'')\<rparr>"

definition gateway_ready :: gateway where
  "gateway_ready = \<lparr>db = Some (Database db_file)\<rparr>"

text \<open>The body, the row and the table of the scenario of the specification.\<close>

definition about_body :: seo_body where
  "about_body =
     \<lparr>body_pagePath = Some ''/about'', body_pageTitle = Some ''About'',
      body_metaTitle = Some ''About Us'', body_metaDescription = Some ''desc'',
      body_content = None, body_keywords = None, body_canonicalUrl = None,
      body_ogTitle = None, body_ogDescription = None, body_ogImage = None,
      body_twitterTitle = None, body_twitterDescription = None,
      body_twitterImage = None, body_robots = None, body_seoScore = None,
      body_isPublished = None\<rparr>"

definition about_row :: seo_row where
  "about_row =
     \<lparr>seo_id = 1, pagePath = ''/about'', pageTitle = ''About'', metaTitle = ''About Us'',
      metaDescription = ''desc'', content = None, keywords = None, canonicalUrl = None,
      ogTitle = None, ogDescription = None, ogImage = None, twitterTitle = None,
      twitterDescription = None, twitterImage = None, robots = None, seoScore = 0,
      isPublished = 1, createdAt = 100, updatedAt = 100\<rparr>"

definition about_table :: seo_table where
  "about_table = \<lparr>seo_rows = [about_row], sqlite_sequence = 1\<rparr>"

text \<open>A second page, made later, and the table that holds both.\<close>

definition contact_row :: seo_row where
  "contact_row =
     \<lparr>seo_id = 2, pagePath = ''/contact'', pageTitle = ''Contact'',
      metaTitle = ''Contact Us'', metaDescription = ''how to reach us'',
      content = None, keywords = Some ''contact'', canonicalUrl = None,
      ogTitle = None, ogDescription = None, ogImage = None, twitterTitle = None,
      twitterDescription = None, twitterImage = None, robots = Some ''index, follow'',
      seoScore = 40, isPublished = 1, createdAt = 150, updatedAt = 150\<rparr>"

definition two_pages :: seo_table where
  "two_pages = \<lparr>seo_rows = [about_row, contact_row], sqlite_sequence = 2\<rparr>"

text \<open>
  An update body for the first page that raises the score and asks for the page to be
  unpublished, and the row the update leaves.
\<close>

definition about_unpublish :: seo_body where
  "about_unpublish = about_body\<lparr>body_seoScore := Some 95, body_isPublished := Some False\<rparr>"

definition about_row_updated :: seo_row where
  "about_row_updated = about_row\<lparr>seoScore := 95, updatedAt := 200\<rparr>"

section \<open>The gateway's guard and its initialisation\<close>

lemma getDatabase_Some: "db g = Some c \<Longrightarrow> getDatabase g = Inr c"
  by (simp add: getDatabase_def)

text \<open>
  C8, as the code has it. \<^verbatim>\<open>getDatabase\<close> throws the "not initialized" error exactly
  while no connection has been assigned: when the module has just been loaded, and
  after an \<^verbatim>\<open>initializeDatabase\<close> whose open step threw. After an
  \<^verbatim>\<open>initializeDatabase\<close> that returned a connection, \<^verbatim>\<open>getDatabase\<close> returns that same
  connection without error.
\<close>

theorem getDatabase_guard:
  "getDatabase module_loaded = Inl not_initialized
   \<and> (db g = None \<longrightarrow> getDatabase g = Inl not_initialized)
   \<and> (open_throws env = Some e \<longrightarrow>
        getDatabase (snd (initializeDatabase env module_loaded)) = Inl not_initialized)
   \<and> (fst (initializeDatabase env g) = Inr c \<longrightarrow>
        getDatabase (snd (initializeDatabase env g)) = Inr c)"
  by (auto simp: getDatabase_def initializeDatabase_def module_loaded_def Let_def
      split: option.splits)

theorem getDatabase_guard_witness:
  "db module_loaded = None
   \<and> getDatabase module_loaded = Inl not_initialized
   \<and> open_throws store_missing
       = Some (SqliteError ''SQLITE_CANTOPEN'' ''unable to open database file'')
   \<and> getDatabase (snd (initializeDatabase store_missing module_loaded)) = Inl not_initialized
   \<and> fst (initializeDatabase column_exists module_loaded) = Inr (Database db_file)
   \<and> getDatabase (snd (initializeDatabase column_exists module_loaded)) = Inr (Database db_file)"
proof -
  have h1: "db module_loaded = None" by (simp add: module_loaded_def)
  have h2: "open_throws store_missing
      = Some (SqliteError ''SQLITE_CANTOPEN'' ''unable to open database file'')"
    by (simp add: store_missing_def)
  have h3: "fst (initializeDatabase column_exists module_loaded) = Inr (Database db_file)"
    by (simp add: initializeDatabase_def column_exists_def Let_def)
  show ?thesis
    using h1 h2 h3
      getDatabase_guard [where g = module_loaded and env = store_missing
        and e = "SqliteError ''SQLITE_CANTOPEN'' ''unable to open database file''"]
      getDatabase_guard [where g = module_loaded and env = column_exists
        and c = "Database db_file"]
    by simp
qed

text \<open>
  C8 as it is written fails: when the store opens and the schema statement throws,
  \<^verbatim>\<open>initializeDatabase\<close> rethrows and so has not completed, yet the connection has been
  assigned and \<^verbatim>\<open>getDatabase\<close> returns it instead of throwing.
\<close>

theorem getDatabase_after_failed_initialize:
  "fst (initializeDatabase schema_step_fails module_loaded)
     = Inl (SqliteError ''SQLITE_NOTADB'' ''file is not a database'')
   \<and> getDatabase (snd (initializeDatabase schema_step_fails module_loaded))
     = Inr (Database db_file)"
  by (simp add: getDatabase_def initializeDatabase_def module_loaded_def
      schema_step_fails_def Let_def)

text \<open>
  What \<^verbatim>\<open>initializeDatabase\<close> rethrows and what it swallows. A throw of the open step is
  rethrown to the caller and leaves the module state as it was; a throw of the table
  statement is rethrown too. When both return, the call returns the connection
  whatever the add-column step does: the \<^verbatim>\<open>catch\<close> around it is empty and tests
  nothing. Hence the call throws exactly when one of the first two steps does.
\<close>

lemma initializeDatabase_rethrows:
  "(open_throws env = None \<and> create_table_throws env = None \<longrightarrow>
      initializeDatabase env g = (Inr (Database db_file), g\<lparr>db := Some (Database db_file)\<rparr>))
   \<and> (open_throws env = Some e \<longrightarrow> initializeDatabase env g = (Inl e, g))
   \<and> (open_throws env = None \<and> create_table_throws env = Some e \<longrightarrow>
        fst (initializeDatabase env g) = Inl e)
   \<and> (isl (fst (initializeDatabase env g)) \<longleftrightarrow>
        open_throws env \<noteq> None \<or> create_table_throws env \<noteq> None)"
  by (auto simp: initializeDatabase_def Let_def split: option.splits)

text \<open>
  The two cases the comment in the source names, evaluated: the column already exists
  and the error is ignored; the store cannot be opened and the error reaches the caller.
\<close>

lemma initializeDatabase_column_exists:
  "initializeDatabase column_exists module_loaded = (Inr (Database db_file), gateway_ready)"
  by (simp add: initializeDatabase_def column_exists_def module_loaded_def gateway_ready_def
      Let_def)

lemma initializeDatabase_store_missing:
  "initializeDatabase store_missing module_loaded
     = (Inl (SqliteError ''SQLITE_CANTOPEN'' ''unable to open database file''), module_loaded)"
  by (simp add: initializeDatabase_def store_missing_def)

text \<open>
  C9 says that the add-column failure "column already exists" is the only failure
  that is suppressed, and the comment in the handler says the same (\<^verbatim>\<open>Column already
  exists, ignore error\<close>). The code suppresses more: on the read-only older store the
  add-column step throws \<^verbatim>\<open>SQLITE_READONLY\<close>, the column has not been added, and
  \<^verbatim>\<open>initializeDatabase\<close> still returns the connection and leaves the gateway ready.
\<close>

theorem initializeDatabase_swallows_read_only:
  "add_column_throws old_store_read_only
     = Some (SqliteError ''SQLITE_READONLY'' ''attempt to write a readonly database'')
   \<and> initializeDatabase old_store_read_only module_loaded
     = (Inr (Database db_file), gateway_ready)"
  by (simp add: initializeDatabase_def old_store_read_only_def module_loaded_def
      gateway_ready_def Let_def)

section \<open>Rows and their ids\<close>

text \<open>
  Facts about a list of rows whose ids are distinct: the row of an id is one row, and
  selecting, filtering or rewriting by id selects, removes or rewrites that row only.
\<close>

lemma no_row_of_id: "i \<notin> set (map seo_id (seo_rows t)) \<Longrightarrow> \<not> list_ex (\<lambda>r. seo_id r = i) (seo_rows t)"
  by (auto simp: list_ex_iff)

lemma same_id_same_row:
  "distinct (map seo_id rs) \<Longrightarrow> x \<in> set rs \<Longrightarrow> r \<in> set rs \<Longrightarrow> seo_id x = seo_id r \<Longrightarrow> x = r"
  by (auto simp: distinct_map dest: inj_onD)

lemma filter_other_ids_remove1:
  "distinct (map seo_id rs) \<Longrightarrow> r \<in> set rs \<Longrightarrow>
   filter (\<lambda>x. seo_id x \<noteq> seo_id r) rs = remove1 r rs"
proof (induction rs)
  case Nil
  then show ?case by simp
next
  case (Cons x xs)
  show ?case
  proof (cases "x = r")
    case True
    have "\<forall>y \<in> set xs. seo_id y \<noteq> seo_id r"
      using Cons.prems(1) True by (auto simp: image_iff)
    then have "filter (\<lambda>x. seo_id x \<noteq> seo_id r) xs = xs" by (simp add: filter_id_conv)
    then show ?thesis using True by simp
  next
    case False
    with Cons.prems have mem: "r \<in> set xs" by simp
    then have "seo_id x \<noteq> seo_id r" using Cons.prems(1) by (auto simp: image_iff)
    moreover have "filter (\<lambda>x. seo_id x \<noteq> seo_id r) xs = remove1 r xs"
      using Cons.IH Cons.prems(1) mem by simp
    ultimately show ?thesis using False by simp
  qed
qed

lemma filter_same_id_nonempty:
  "r \<in> set rs \<Longrightarrow> length (filter (\<lambda>x. seo_id x = seo_id r) rs) \<noteq> 0"
  by (auto simp: filter_empty_conv)

lemma filter_no_such_id:
  "i \<notin> set (map seo_id rs) \<Longrightarrow> filter (\<lambda>x. seo_id x \<noteq> i) rs = rs \<and> filter (\<lambda>x. seo_id x = i) rs = []"
  by (auto simp: filter_id_conv filter_empty_conv)

lemma find_by_id:
  "distinct (map seo_id rs) \<Longrightarrow> r \<in> set rs \<Longrightarrow> find (\<lambda>x. seo_id x = seo_id r) rs = Some r"
proof (induction rs)
  case Nil
  then show ?case by simp
next
  case (Cons x xs)
  show ?case
  proof (cases "x = r")
    case True
    then show ?thesis by simp
  next
    case False
    with Cons.prems have mem: "r \<in> set xs" by simp
    then have "seo_id x \<noteq> seo_id r" using Cons.prems(1) by (auto simp: image_iff)
    then show ?thesis using Cons.IH Cons.prems(1) mem by simp
  qed
qed

lemma find_id_map_same_id:
  "find (\<lambda>x. seo_id x = i) (map (\<lambda>x. if seo_id x = i then f x else x) rs)
     = map_option f (find (\<lambda>x. seo_id x = i) rs)"
  if "\<And>x. seo_id (f x) = seo_id x"
  using that by (induction rs) auto

lemma map_by_id:
  assumes "distinct (map seo_id rs)" and "r \<in> set rs"
  shows "map (\<lambda>x. if seo_id x = seo_id r then f x else x) rs
           = map (\<lambda>x. if x = r then f r else x) rs"
proof (rule map_cong [OF refl])
  fix x assume "x \<in> set rs"
  then have "seo_id x = seo_id r \<longleftrightarrow> x = r"
    using same_id_same_row [OF assms(1) _ assms(2)] by blast
  then show "(if seo_id x = seo_id r then f x else x) = (if x = r then f r else x)" by auto
qed

section \<open>List\<close>

lemma sql_select_all_sorted:
  "sorted_wrt (\<lambda>a b. createdAt b \<le> createdAt a) (sql_select_all t)"
proof -
  have "sorted (map createdAt (sort_key createdAt (seo_rows t)))" by (rule sorted_sort_key)
  then have "sorted_wrt (\<lambda>a b. createdAt a \<le> createdAt b) (sort_key createdAt (seo_rows t))"
    by (simp add: sorted_map)
  then show ?thesis by (simp add: sql_select_all_def sorted_wrt_rev)
qed

lemma sql_select_all_mset: "mset (sql_select_all t) = mset (seo_rows t)"
  by (simp add: sql_select_all_def)

lemma sql_select_all_once:
  assumes "unique_ids t" and "r \<in> set (seo_rows t)"
  shows "count_list (sql_select_all t) r = 1"
proof -
  have "distinct (seo_rows t)" using assms(1) by (simp add: unique_ids_def distinct_map)
  then have "count (mset (seo_rows t)) r = 1"
    using assms(2) by (simp add: distinct_count_atmost_1)
  then show ?thesis by (simp add: sql_select_all_mset [symmetric] count_mset)
qed

text \<open>
  C6. With the gateway initialised, the list answers 200 with an array that is ordered
  by \<^verbatim>\<open>createdAt\<close> descending and holds the stored records, each as often as the table
  does; with ids unique, every stored record appears exactly once.
\<close>

theorem get_seo_lists_newest_first:
  assumes "db g = Some c"
  shows "\<exists>rs. get_seo g t =
           (\<lparr>status = 200, success = True, message = None, error = None,
             seoData = Some (Rows rs)\<rparr>, t)
         \<and> sorted_wrt (\<lambda>a b. createdAt b \<le> createdAt a) rs
         \<and> mset rs = mset (seo_rows t)
         \<and> (unique_ids t \<longrightarrow> (\<forall>r \<in> set (seo_rows t). count_list rs r = 1))"
proof -
  have "get_seo g t =
           (\<lparr>status = 200, success = True, message = None, error = None,
             seoData = Some (Rows (sql_select_all t))\<rparr>, t)"
    by (simp add: get_seo_def getDatabase_Some [OF assms])
  then show ?thesis
    using sql_select_all_sorted sql_select_all_mset sql_select_all_once by blast
qed

theorem get_seo_lists_newest_first_witness:
  "db gateway_ready = Some (Database db_file) \<and> unique_ids two_pages
   \<and> (\<exists>rs. get_seo gateway_ready two_pages =
           (\<lparr>status = 200, success = True, message = None, error = None,
             seoData = Some (Rows rs)\<rparr>, two_pages)
         \<and> sorted_wrt (\<lambda>a b. createdAt b \<le> createdAt a) rs
         \<and> mset rs = mset (seo_rows two_pages)
         \<and> count_list rs about_row = 1 \<and> count_list rs contact_row = 1)"
proof -
  have h1: "db gateway_ready = Some (Database db_file)" by (simp add: gateway_ready_def)
  have h2: "unique_ids two_pages"
    by (simp add: unique_ids_def two_pages_def about_row_def contact_row_def)
  have h3: "set (seo_rows two_pages) = {about_row, contact_row}"
    by (simp add: two_pages_def)
  show ?thesis
    using h1 h2 h3 get_seo_lists_newest_first [OF h1, of two_pages] by auto
qed

text \<open>The list of the two pages, evaluated: the later page first.\<close>

lemma get_seo_two_pages:
  "get_seo gateway_ready two_pages =
     (\<lparr>status = 200, success = True, message = None, error = None,
       seoData = Some (Rows [contact_row, about_row])\<rparr>, two_pages)"
  by (simp add: get_seo_def getDatabase_def gateway_ready_def sql_select_all_def
      two_pages_def about_row_def contact_row_def)

section \<open>Get by path\<close>

lemma no_match_select_page:
  "\<not> list_ex (\<lambda>r. pagePath r = p \<and> isPublished r = 1) (seo_rows t) \<Longrightarrow>
   sql_select_page p t = None"
  by (simp add: sql_select_page_def find_None_iff list_ex_iff)

text \<open>
  C1. With the gateway initialised and no row of the table holding the requested
  \<^verbatim>\<open>pagePath\<close> with \<^verbatim>\<open>isPublished = 1\<close>, the path lookup answers 200 (not 404) with
  \<^verbatim>\<open>success: true\<close> and the fallback record, whose \<^verbatim>\<open>pagePath\<close> is the requested path
  and whose \<^verbatim>\<open>isPublished\<close> is true.
\<close>

theorem get_seo_page_fallback:
  assumes "db g = Some c"
    and "\<not> list_ex (\<lambda>r. pagePath r = p \<and> isPublished r = 1) (seo_rows t)"
  shows "fst (get_seo_page g p t) =
           \<lparr>status = 200, success = True, message = None, error = None,
            seoData = Some (Fallback (fallback_data p))\<rparr>
         \<and> status (fst (get_seo_page g p t)) \<noteq> 404
         \<and> fb_pagePath (fallback_data p) = p
         \<and> fb_isPublished (fallback_data p) = True"
  using assms
  by (simp add: get_seo_page_def getDatabase_Some no_match_select_page fallback_data_def)

theorem get_seo_page_fallback_witness:
  "db gateway_ready = Some (Database db_file)
   \<and> \<not> list_ex (\<lambda>r. pagePath r = ''/contact'' \<and> isPublished r = 1) (seo_rows about_table)
   \<and> fst (get_seo_page gateway_ready ''/contact'' about_table) =
           \<lparr>status = 200, success = True, message = None, error = None,
            seoData = Some (Fallback (fallback_data ''/contact''))\<rparr>
   \<and> status (fst (get_seo_page gateway_ready ''/contact'' about_table)) \<noteq> 404
   \<and> fb_pagePath (fallback_data ''/contact'') = ''/contact''
   \<and> fb_isPublished (fallback_data ''/contact'') = True"
proof -
  have h1: "db gateway_ready = Some (Database db_file)" by (simp add: gateway_ready_def)
  have h2: "\<not> list_ex (\<lambda>r. pagePath r = ''/contact'' \<and> isPublished r = 1) (seo_rows about_table)"
    by (simp add: about_table_def about_row_def)
  show ?thesis using h1 h2 get_seo_page_fallback [OF h1 h2] by simp
qed

text \<open>
  C10. The path lookup leaves the table as it was, whatever the gateway and the table
  are. When no published row matches, the response is the same for every table and
  carries the fallback record, which is a function of the requested path alone, with
  \<^verbatim>\<open>metaDescription\<close> 'Digital Agency Services', \<^verbatim>\<open>seoScore\<close> 85 and \<^verbatim>\<open>robots\<close>
  'index, follow'; it is not written to the table.
\<close>

theorem get_seo_page_read_only:
  "snd (get_seo_page g p t) = t
   \<and> (db g = Some c \<and> db g' = Some c'
        \<and> \<not> list_ex (\<lambda>r. pagePath r = p \<and> isPublished r = 1) (seo_rows t)
        \<and> \<not> list_ex (\<lambda>r. pagePath r = p \<and> isPublished r = 1) (seo_rows t') \<longrightarrow>
        fst (get_seo_page g p t) = fst (get_seo_page g' p t')
        \<and> seoData (fst (get_seo_page g p t)) = Some (Fallback (fallback_data p)))
   \<and> fb_metaDescription (fallback_data p) = ''Digital Agency Services''
   \<and> fb_seoScore (fallback_data p) = 85
   \<and> fb_robots (fallback_data p) = ''index, follow''"
proof -
  have "snd (get_seo_page g p t) = t"
    by (simp add: get_seo_page_def split: sum.splits option.splits)
  moreover have "fst (get_seo_page g p t) = fst (get_seo_page g' p t')
        \<and> seoData (fst (get_seo_page g p t)) = Some (Fallback (fallback_data p))"
    if "db g = Some c" "db g' = Some c'"
      "\<not> list_ex (\<lambda>r. pagePath r = p \<and> isPublished r = 1) (seo_rows t)"
      "\<not> list_ex (\<lambda>r. pagePath r = p \<and> isPublished r = 1) (seo_rows t')"
    using that by (simp add: get_seo_page_def getDatabase_Some no_match_select_page)
  moreover have "fb_metaDescription (fallback_data p) = ''Digital Agency Services''"
    "fb_seoScore (fallback_data p) = 85" "fb_robots (fallback_data p) = ''index, follow''"
    by (simp_all add: fallback_data_def)
  ultimately show ?thesis by blast
qed

theorem get_seo_page_read_only_witness:
  "snd (get_seo_page gateway_ready ''/contact'' about_table) = about_table
   \<and> db gateway_ready = Some (Database db_file)
   \<and> \<not> list_ex (\<lambda>r. pagePath r = ''/contact'' \<and> isPublished r = 1) (seo_rows about_table)
   \<and> \<not> list_ex (\<lambda>r. pagePath r = ''/contact'' \<and> isPublished r = 1) (seo_rows empty_table)
   \<and> fst (get_seo_page gateway_ready ''/contact'' about_table)
       = fst (get_seo_page gateway_ready ''/contact'' empty_table)
   \<and> seoData (fst (get_seo_page gateway_ready ''/contact'' about_table))
       = Some (Fallback (fallback_data ''/contact''))
   \<and> fb_metaDescription (fallback_data ''/contact'') = ''Digital Agency Services''
   \<and> fb_seoScore (fallback_data ''/contact'') = 85
   \<and> fb_robots (fallback_data ''/contact'') = ''index, follow''"
proof -
  have h1: "db gateway_ready = Some (Database db_file)" by (simp add: gateway_ready_def)
  have h2: "\<not> list_ex (\<lambda>r. pagePath r = ''/contact'' \<and> isPublished r = 1) (seo_rows about_table)"
    by (simp add: about_table_def about_row_def)
  have h3: "\<not> list_ex (\<lambda>r. pagePath r = ''/contact'' \<and> isPublished r = 1) (seo_rows empty_table)"
    by (simp add: empty_table_def)
  show ?thesis
    using h1 h2 h3
      get_seo_page_read_only [where g = gateway_ready and g' = gateway_ready
        and p = "''/contact''" and t = about_table and t' = empty_table
        and c = "Database db_file" and c' = "Database db_file"]
    by blast
qed

text \<open>The lookup of the scenario's page, evaluated: the stored record, not the fallback.\<close>

lemma get_seo_page_about:
  "get_seo_page gateway_ready ''/about'' about_table =
     (\<lparr>status = 200, success = True, message = None, error = None,
       seoData = Some (Row about_row)\<rparr>, about_table)"
  by (simp add: get_seo_page_def getDatabase_def gateway_ready_def sql_select_page_def
      about_table_def about_row_def)

section \<open>Create\<close>

lemma fold_max_ge_init: "a \<le> fold (\<lambda>r m. max (seo_id r) m) rs a"
proof (induction rs arbitrary: a)
  case Nil
  show ?case by simp
next
  case (Cons x xs)
  have "a \<le> max (seo_id x) a" by simp
  also have "\<dots> \<le> fold (\<lambda>r m. max (seo_id r) m) xs (max (seo_id x) a)" by (rule Cons.IH)
  finally show ?case by simp
qed

lemma fold_max_ge_member:
  "r \<in> set rs \<Longrightarrow> seo_id r \<le> fold (\<lambda>r m. max (seo_id r) m) rs a"
proof (induction rs arbitrary: a)
  case Nil
  then show ?case by simp
next
  case (Cons x xs)
  show ?case
  proof (cases "r = x")
    case True
    have "seo_id x \<le> max (seo_id x) a" by simp
    also have "\<dots> \<le> fold (\<lambda>r m. max (seo_id r) m) xs (max (seo_id x) a)"
      by (rule fold_max_ge_init)
    finally show ?thesis using True by simp
  next
    case False
    with Cons.prems have "r \<in> set xs" by simp
    then show ?thesis using Cons.IH by simp
  qed
qed

lemma next_rowid_above_rows: "r \<in> set (seo_rows t) \<Longrightarrow> seo_id r < next_rowid t"
  using fold_max_ge_member [of r "seo_rows t" 0] by (simp add: next_rowid_def max_rowid_def)

lemma next_rowid_above_sequence: "sqlite_sequence t < next_rowid t"
  by (simp add: next_rowid_def)

lemma next_rowid_unused: "next_rowid t \<notin> set (map seo_id (seo_rows t))"
  using next_rowid_above_rows [of _ t] by force

lemma find_append_new:
  "\<forall>x \<in> set xs. \<not> P x \<Longrightarrow> P y \<Longrightarrow> find P (xs @ [y]) = Some y"
  by (induction xs) auto

lemma sql_select_id_inserted:
  assumes "seo_id r = next_rowid t"
  shows "sql_select_id (next_rowid t) \<lparr>seo_rows = seo_rows t @ [r], sqlite_sequence = k\<rparr> = Some r"
proof -
  have "\<forall>x \<in> set (seo_rows t). \<not> seo_id x = next_rowid t"
    using next_rowid_above_rows [of _ t] by force
  then show ?thesis
    unfolding sql_select_id_def using assms by (simp add: find_append_new)
qed

lemma or_zero_eq: "or_zero v = (case v of None \<Rightarrow> 0 | Some n \<Rightarrow> n)"
  by (simp add: or_zero_def split: option.splits)

text \<open>
  C2. With the gateway initialised, the four required fields present in the body and
  the body's \<^verbatim>\<open>pagePath\<close> held by no row, the create answers 201 with the record it
  appended to the table. That record has the body's \<^verbatim>\<open>pagePath\<close>, \<^verbatim>\<open>isPublished\<close> true
  (the store's 1) and the body's \<^verbatim>\<open>seoScore\<close>, or 0 when the body has none. Its id is
  new: no row of the table has it, and it is above the \<^verbatim>\<open>AUTOINCREMENT\<close> counter, so
  above every id the table has ever held.
\<close>

theorem post_seo_creates:
  assumes "db g = Some c"
    and "body_pagePath b = Some pp" and "body_pageTitle b = Some pt"
    and "body_metaTitle b = Some mt" and "body_metaDescription b = Some md"
    and "pp \<notin> set (map pagePath (seo_rows t))"
  shows "\<exists>r. post_seo g now b t =
           (\<lparr>status = 201, success = True,
             message = Some ''SEO data created successfully'', error = None,
             seoData = Some (Row r)\<rparr>,
            \<lparr>seo_rows = seo_rows t @ [r], sqlite_sequence = seo_id r\<rparr>)
         \<and> pagePath r = pp \<and> isPublished r = 1
         \<and> seoScore r = (case body_seoScore b of None \<Rightarrow> 0 | Some n \<Rightarrow> n)
         \<and> seo_id r \<notin> set (map seo_id (seo_rows t))
         \<and> sqlite_sequence t < seo_id r"
proof -
  define r where "r =
    \<lparr>seo_id = next_rowid t, pagePath = pp, pageTitle = pt, metaTitle = mt,
     metaDescription = md, content = body_content b, keywords = body_keywords b,
     canonicalUrl = body_canonicalUrl b, ogTitle = body_ogTitle b,
     ogDescription = body_ogDescription b, ogImage = body_ogImage b,
     twitterTitle = body_twitterTitle b,
     twitterDescription = body_twitterDescription b,
     twitterImage = body_twitterImage b, robots = body_robots b,
     seoScore = or_zero (body_seoScore b), isPublished = 1,
     createdAt = now, updatedAt = now\<rparr>"
  have id_r: "seo_id r = next_rowid t" by (simp add: r_def)
  have ins: "sql_insert (run_arguments b) now t =
      Inr (next_rowid t, \<lparr>seo_rows = seo_rows t @ [r], sqlite_sequence = next_rowid t\<rparr>)"
    using assms(2-6) by (simp add: sql_insert_def run_arguments_def Let_def r_def)
  have sel: "sql_select_id (next_rowid t)
      \<lparr>seo_rows = seo_rows t @ [r], sqlite_sequence = next_rowid t\<rparr> = Some r"
    by (rule sql_select_id_inserted [OF id_r])
  have "post_seo g now b t =
           (\<lparr>status = 201, success = True,
             message = Some ''SEO data created successfully'', error = None,
             seoData = Some (Row r)\<rparr>,
            \<lparr>seo_rows = seo_rows t @ [r], sqlite_sequence = seo_id r\<rparr>)"
    by (simp add: post_seo_def getDatabase_Some [OF assms(1)] ins sel id_r)
  moreover have "pagePath r = pp" "isPublished r = 1" by (simp_all add: r_def)
  moreover have "seoScore r = (case body_seoScore b of None \<Rightarrow> 0 | Some n \<Rightarrow> n)"
    by (simp add: r_def or_zero_eq)
  moreover have "seo_id r \<notin> set (map seo_id (seo_rows t))"
    unfolding id_r by (rule next_rowid_unused)
  moreover have "sqlite_sequence t < seo_id r"
    unfolding id_r by (rule next_rowid_above_sequence)
  ultimately show ?thesis by blast
qed

theorem post_seo_creates_witness:
  "db gateway_ready = Some (Database db_file)
   \<and> body_pagePath about_body = Some ''/about''
   \<and> body_pageTitle about_body = Some ''About''
   \<and> body_metaTitle about_body = Some ''About Us''
   \<and> body_metaDescription about_body = Some ''desc''
   \<and> ''/about'' \<notin> set (map pagePath (seo_rows empty_table))
   \<and> (\<exists>r. post_seo gateway_ready 100 about_body empty_table =
           (\<lparr>status = 201, success = True,
             message = Some ''SEO data created successfully'', error = None,
             seoData = Some (Row r)\<rparr>,
            \<lparr>seo_rows = seo_rows empty_table @ [r], sqlite_sequence = seo_id r\<rparr>)
         \<and> pagePath r = ''/about'' \<and> isPublished r = 1
         \<and> seoScore r = (case body_seoScore about_body of None \<Rightarrow> 0 | Some n \<Rightarrow> n)
         \<and> seo_id r \<notin> set (map seo_id (seo_rows empty_table))
         \<and> sqlite_sequence empty_table < seo_id r)"
proof -
  have h1: "db gateway_ready = Some (Database db_file)" by (simp add: gateway_ready_def)
  have h2: "body_pagePath about_body = Some ''/about''" by (simp add: about_body_def)
  have h3: "body_pageTitle about_body = Some ''About''" by (simp add: about_body_def)
  have h4: "body_metaTitle about_body = Some ''About Us''" by (simp add: about_body_def)
  have h5: "body_metaDescription about_body = Some ''desc''" by (simp add: about_body_def)
  have h6: "''/about'' \<notin> set (map pagePath (seo_rows empty_table))"
    by (simp add: empty_table_def)
  show ?thesis
    using post_seo_creates [OF h1 h2 h3 h4 h5 h6, of 100] h1 h2 h3 h4 h5 h6 by blast
qed

text \<open>The create of the scenario, evaluated: id 1, published, score 0.\<close>

lemma post_seo_about:
  "post_seo gateway_ready 100 about_body empty_table =
     (\<lparr>status = 201, success = True,
       message = Some ''SEO data created successfully'', error = None,
       seoData = Some (Row about_row)\<rparr>, about_table)"
  by (simp add: post_seo_def getDatabase_def gateway_ready_def sql_insert_def
      run_arguments_def about_body_def empty_table_def next_rowid_def max_rowid_def
      Let_def or_zero_def sql_select_id_def about_row_def about_table_def)

text \<open>
  A create after the only record has been deleted: the id 1 is not given again.
\<close>

lemma post_seo_after_delete:
  "seoData (fst (post_seo gateway_ready 400 about_body \<lparr>seo_rows = [], sqlite_sequence = 1\<rparr>))
     = Some (Row (about_row\<lparr>seo_id := 2, createdAt := 400, updatedAt := 400\<rparr>))"
  by (simp add: post_seo_def getDatabase_def gateway_ready_def sql_insert_def
      run_arguments_def about_body_def next_rowid_def max_rowid_def
      Let_def or_zero_def sql_select_id_def about_row_def)

section \<open>Update\<close>

lemma seo_id_set_columns: "seo_id (set_columns pp pt mt md p now r) = seo_id r"
  by (simp add: set_columns_def)

text \<open>
  C3, as the code has it. With the gateway initialised and ids unique, an update whose
  id is that of a stored record, whose body has the four required fields and whose
  \<^verbatim>\<open>pagePath\<close> no other record holds, answers 200 with the record changed as follows
  and changes no other row: the fourteen text columns take the body's values,
  \<^verbatim>\<open>seoScore\<close> takes the body's value or 0 when the body has none, and \<^verbatim>\<open>updatedAt\<close>
  is the current time; \<^verbatim>\<open>id\<close>, \<^verbatim>\<open>createdAt\<close> and \<^verbatim>\<open>isPublished\<close> stay as they were.
\<close>

theorem put_seo_replaces_columns:
  assumes "db g = Some c" and "unique_ids t"
    and "r \<in> set (seo_rows t)" and "seo_id r = i"
    and "body_pagePath b = Some pp" and "body_pageTitle b = Some pt"
    and "body_metaTitle b = Some mt" and "body_metaDescription b = Some md"
    and "\<not> list_ex (\<lambda>x. seo_id x \<noteq> i \<and> pagePath x = pp) (seo_rows t)"
  shows "\<exists>r'. r' = r\<lparr>pagePath := pp, pageTitle := pt, metaTitle := mt,
                    metaDescription := md, content := body_content b,
                    keywords := body_keywords b, canonicalUrl := body_canonicalUrl b,
                    ogTitle := body_ogTitle b, ogDescription := body_ogDescription b,
                    ogImage := body_ogImage b, twitterTitle := body_twitterTitle b,
                    twitterDescription := body_twitterDescription b,
                    twitterImage := body_twitterImage b, robots := body_robots b,
                    seoScore := (case body_seoScore b of None \<Rightarrow> 0 | Some n \<Rightarrow> n),
                    updatedAt := now\<rparr>
         \<and> put_seo g now i b t =
             (\<lparr>status = 200, success = True,
               message = Some ''SEO data updated successfully'', error = None,
               seoData = Some (Row r')\<rparr>,
              t\<lparr>seo_rows := map (\<lambda>x. if x = r then r' else x) (seo_rows t)\<rparr>)
         \<and> seo_id r' = seo_id r \<and> createdAt r' = createdAt r
         \<and> isPublished r' = isPublished r \<and> updatedAt r' = now"
proof -
  let ?f = "set_columns pp pt mt md (run_arguments b) now"
  have d: "distinct (map seo_id (seo_rows t))" using assms(2) by (simp add: unique_ids_def)
  have ex: "list_ex (\<lambda>x. seo_id x = i) (seo_rows t)"
    using assms(3,4) by (auto simp: list_ex_iff)
  have n: "length (filter (\<lambda>x. seo_id x = i) (seo_rows t)) \<noteq> 0"
    using filter_same_id_nonempty [OF assms(3)] assms(4) by simp
  have m: "map (\<lambda>x. if seo_id x = i then ?f x else x) (seo_rows t)
      = map (\<lambda>x. if x = r then ?f r else x) (seo_rows t)"
    using map_by_id [OF d assms(3), of ?f] assms(4) by simp
  have upd: "sql_update (run_arguments b) i now t =
      Inr (length (filter (\<lambda>x. seo_id x = i) (seo_rows t)),
           t\<lparr>seo_rows := map (\<lambda>x. if x = r then ?f r else x) (seo_rows t)\<rparr>)"
    using ex assms(5-9) by (simp add: sql_update_def run_arguments_def m [symmetric])
  have "find (\<lambda>x. seo_id x = i) (map (\<lambda>x. if seo_id x = i then ?f x else x) (seo_rows t))
      = map_option ?f (find (\<lambda>x. seo_id x = i) (seo_rows t))"
    by (rule find_id_map_same_id) (rule seo_id_set_columns)
  also have "find (\<lambda>x. seo_id x = i) (seo_rows t) = Some r"
    using find_by_id [OF d assms(3)] assms(4) by simp
  finally have sel: "sql_select_id i
      (t\<lparr>seo_rows := map (\<lambda>x. if x = r then ?f r else x) (seo_rows t)\<rparr>) = Some (?f r)"
    by (simp add: sql_select_id_def m)
  have put: "put_seo g now i b t =
             (\<lparr>status = 200, success = True,
               message = Some ''SEO data updated successfully'', error = None,
               seoData = Some (Row (?f r))\<rparr>,
              t\<lparr>seo_rows := map (\<lambda>x. if x = r then ?f r else x) (seo_rows t)\<rparr>)"
    using n by (simp add: put_seo_def getDatabase_Some [OF assms(1)] upd sel)
  have f: "?f r = r\<lparr>pagePath := pp, pageTitle := pt, metaTitle := mt,
                    metaDescription := md, content := body_content b,
                    keywords := body_keywords b, canonicalUrl := body_canonicalUrl b,
                    ogTitle := body_ogTitle b, ogDescription := body_ogDescription b,
                    ogImage := body_ogImage b, twitterTitle := body_twitterTitle b,
                    twitterDescription := body_twitterDescription b,
                    twitterImage := body_twitterImage b, robots := body_robots b,
                    seoScore := (case body_seoScore b of None \<Rightarrow> 0 | Some n \<Rightarrow> n),
                    updatedAt := now\<rparr>"
    by (simp add: set_columns_def run_arguments_def or_zero_eq)
  show ?thesis
    unfolding put f by simp
qed

theorem put_seo_replaces_columns_witness:
  "db gateway_ready = Some (Database db_file) \<and> unique_ids two_pages
   \<and> about_row \<in> set (seo_rows two_pages) \<and> seo_id about_row = 1
   \<and> body_pagePath about_unpublish = Some ''/about''
   \<and> body_pageTitle about_unpublish = Some ''About''
   \<and> body_metaTitle about_unpublish = Some ''About Us''
   \<and> body_metaDescription about_unpublish = Some ''desc''
   \<and> \<not> list_ex (\<lambda>x. seo_id x \<noteq> 1 \<and> pagePath x = ''/about'') (seo_rows two_pages)
   \<and> put_seo gateway_ready 200 1 about_unpublish two_pages =
        (\<lparr>status = 200, success = True,
          message = Some ''SEO data updated successfully'', error = None,
          seoData = Some (Row about_row_updated)\<rparr>,
         \<lparr>seo_rows = [about_row_updated, contact_row], sqlite_sequence = 2\<rparr>)
   \<and> seo_id about_row_updated = 1 \<and> createdAt about_row_updated = 100
   \<and> isPublished about_row_updated = 1 \<and> updatedAt about_row_updated = 200
   \<and> seoScore about_row_updated = 95"
proof -
  have h1: "db gateway_ready = Some (Database db_file)" by (simp add: gateway_ready_def)
  have h2: "unique_ids two_pages"
    by (simp add: unique_ids_def two_pages_def about_row_def contact_row_def)
  have h3: "about_row \<in> set (seo_rows two_pages)" by (simp add: two_pages_def)
  have h4: "seo_id about_row = 1" by (simp add: about_row_def)
  have h5: "body_pagePath about_unpublish = Some ''/about''"
    and h6: "body_pageTitle about_unpublish = Some ''About''"
    and h7: "body_metaTitle about_unpublish = Some ''About Us''"
    and h8: "body_metaDescription about_unpublish = Some ''desc''"
    by (simp_all add: about_unpublish_def about_body_def)
  have h9: "\<not> list_ex (\<lambda>x. seo_id x \<noteq> 1 \<and> pagePath x = ''/about'') (seo_rows two_pages)"
    by (simp add: two_pages_def about_row_def contact_row_def)
  have ne: "contact_row \<noteq> about_row" by (simp add: about_row_def contact_row_def)
  have r: "about_row\<lparr>pagePath := ''/about'', pageTitle := ''About'', metaTitle := ''About Us'',
                    metaDescription := ''desc'', content := body_content about_unpublish,
                    keywords := body_keywords about_unpublish,
                    canonicalUrl := body_canonicalUrl about_unpublish,
                    ogTitle := body_ogTitle about_unpublish,
                    ogDescription := body_ogDescription about_unpublish,
                    ogImage := body_ogImage about_unpublish,
                    twitterTitle := body_twitterTitle about_unpublish,
                    twitterDescription := body_twitterDescription about_unpublish,
                    twitterImage := body_twitterImage about_unpublish,
                    robots := body_robots about_unpublish,
                    seoScore := (case body_seoScore about_unpublish of None \<Rightarrow> 0 | Some n \<Rightarrow> n),
                    updatedAt := 200\<rparr> = about_row_updated"
    by (simp add: about_row_updated_def about_unpublish_def about_body_def about_row_def)
  have t: "two_pages\<lparr>seo_rows :=
              map (\<lambda>x. if x = about_row then about_row_updated else x) (seo_rows two_pages)\<rparr>
           = \<lparr>seo_rows = [about_row_updated, contact_row], sqlite_sequence = 2\<rparr>"
    using ne by (simp add: two_pages_def)
  have v: "seo_id about_row_updated = 1 \<and> createdAt about_row_updated = 100
   \<and> isPublished about_row_updated = 1 \<and> updatedAt about_row_updated = 200
   \<and> seoScore about_row_updated = 95"
    by (simp add: about_row_updated_def about_row_def)
  from put_seo_replaces_columns [OF h1 h2 h3 h4 h5 h6 h7 h8 h9, of 200]
  have "put_seo gateway_ready 200 1 about_unpublish two_pages =
        (\<lparr>status = 200, success = True,
          message = Some ''SEO data updated successfully'', error = None,
          seoData = Some (Row about_row_updated)\<rparr>,
         \<lparr>seo_rows = [about_row_updated, contact_row], sqlite_sequence = 2\<rparr>)"
    unfolding r by (simp add: t)
  then show ?thesis using h1 h2 h3 h4 h5 h6 h7 h8 h9 v by simp
qed

text \<open>
  C3 as it is written fails: \<^verbatim>\<open>isPublished\<close> is not replaced by the body's value. The
  UPDATE has no \<^verbatim>\<open>isPublished = ?\<close> and the handler does not read the key: a body
  that says \<^verbatim>\<open>isPublished: false\<close> leaves the record published.
\<close>

theorem put_seo_keeps_isPublished:
  "body_isPublished about_unpublish = Some False
   \<and> put_seo gateway_ready 200 1 about_unpublish about_table =
        (\<lparr>status = 200, success = True,
          message = Some ''SEO data updated successfully'', error = None,
          seoData = Some (Row about_row_updated)\<rparr>,
         \<lparr>seo_rows = [about_row_updated], sqlite_sequence = 1\<rparr>)
   \<and> isPublished about_row_updated = 1"
  by (simp add: about_unpublish_def about_body_def put_seo_def getDatabase_def
      gateway_ready_def sql_update_def run_arguments_def about_table_def about_row_def
      set_columns_def or_zero_def sql_select_id_def about_row_updated_def)

text \<open>
  C4. With the gateway initialised and no row of the requested id, the update answers
  404 with \<^verbatim>\<open>success: false\<close> and leaves the table exactly as it was, whatever the body
  holds.
\<close>

theorem put_seo_unknown_id:
  assumes "db g = Some c" and "i \<notin> set (map seo_id (seo_rows t))"
  shows "put_seo g now i b t =
           (\<lparr>status = 404, success = False, message = None,
             error = Some ''SEO data not found'', seoData = None\<rparr>, t)"
  using assms
  by (simp add: put_seo_def getDatabase_Some sql_update_def no_row_of_id seo_not_found_def)

theorem put_seo_unknown_id_witness:
  "db gateway_ready = Some (Database db_file)
   \<and> 7 \<notin> set (map seo_id (seo_rows about_table))
   \<and> put_seo gateway_ready 200 7 about_body about_table =
           (\<lparr>status = 404, success = False, message = None,
             error = Some ''SEO data not found'', seoData = None\<rparr>, about_table)"
proof -
  have h1: "db gateway_ready = Some (Database db_file)" by (simp add: gateway_ready_def)
  have h2: "7 \<notin> set (map seo_id (seo_rows about_table))"
    by (simp add: about_table_def about_row_def)
  show ?thesis using h1 h2 put_seo_unknown_id [OF h1 h2, of 200 about_body] by simp
qed

section \<open>Delete\<close>

text \<open>
  C5. With the gateway initialised and ids unique, as the primary key makes them: a
  delete whose id is that of a stored record answers 200 and leaves the table with
  exactly that record removed, every other row and the order as they were, so that a
  lookup of the id finds nothing; a delete whose id no record has answers 404 and
  leaves the table as it was.
\<close>

theorem delete_seo_removes_one:
  assumes "db g = Some c" and "unique_ids t"
  shows "(r \<in> set (seo_rows t) \<and> seo_id r = i \<longrightarrow>
            delete_seo g i t =
              (\<lparr>status = 200, success = True,
                message = Some ''SEO data deleted successfully'', error = None,
                seoData = None\<rparr>,
               t\<lparr>seo_rows := remove1 r (seo_rows t)\<rparr>)
            \<and> r \<notin> set (remove1 r (seo_rows t))
            \<and> length (remove1 r (seo_rows t)) + 1 = length (seo_rows t)
            \<and> sql_select_id i (snd (delete_seo g i t)) = None)
         \<and> (i \<notin> set (map seo_id (seo_rows t)) \<longrightarrow>
            delete_seo g i t =
              (\<lparr>status = 404, success = False, message = None,
                error = Some ''SEO data not found'', seoData = None\<rparr>, t))"
proof (intro conjI impI)
  assume a: "r \<in> set (seo_rows t) \<and> seo_id r = i"
  have d: "distinct (map seo_id (seo_rows t))" using assms(2) by (simp add: unique_ids_def)
  have f: "filter (\<lambda>x. seo_id x \<noteq> i) (seo_rows t) = remove1 r (seo_rows t)"
    using filter_other_ids_remove1 [OF d] a by blast
  have n: "length (filter (\<lambda>x. seo_id x = i) (seo_rows t)) \<noteq> 0"
    using filter_same_id_nonempty a by blast
  show del: "delete_seo g i t =
              (\<lparr>status = 200, success = True,
                message = Some ''SEO data deleted successfully'', error = None,
                seoData = None\<rparr>,
               t\<lparr>seo_rows := remove1 r (seo_rows t)\<rparr>)"
    using n by (simp add: delete_seo_def getDatabase_Some [OF assms(1)] sql_delete_def f)
  have dr: "distinct (seo_rows t)" using d by (simp add: distinct_map)
  show "r \<notin> set (remove1 r (seo_rows t))" using dr by simp
  show "length (remove1 r (seo_rows t)) + 1 = length (seo_rows t)"
  proof -
    have "0 < length (seo_rows t)" using a by (cases "seo_rows t") auto
    then show ?thesis using a by (simp add: length_remove1)
  qed
  have "\<forall>x \<in> set (remove1 r (seo_rows t)). seo_id x \<noteq> i"
    unfolding f [symmetric] by simp
  then show "sql_select_id i (snd (delete_seo g i t)) = None"
    by (simp add: del sql_select_id_def find_None_iff)
next
  assume a: "i \<notin> set (map seo_id (seo_rows t))"
  show "delete_seo g i t =
              (\<lparr>status = 404, success = False, message = None,
                error = Some ''SEO data not found'', seoData = None\<rparr>, t)"
    using filter_no_such_id [OF a]
    by (simp add: delete_seo_def getDatabase_Some [OF assms(1)] sql_delete_def seo_not_found_def)
qed

theorem delete_seo_removes_one_witness:
  "db gateway_ready = Some (Database db_file) \<and> unique_ids two_pages
   \<and> about_row \<in> set (seo_rows two_pages) \<and> seo_id about_row = 1
   \<and> delete_seo gateway_ready 1 two_pages =
        (\<lparr>status = 200, success = True,
          message = Some ''SEO data deleted successfully'', error = None,
          seoData = None\<rparr>,
         \<lparr>seo_rows = [contact_row], sqlite_sequence = 2\<rparr>)
   \<and> sql_select_id 1 (snd (delete_seo gateway_ready 1 two_pages)) = None
   \<and> 7 \<notin> set (map seo_id (seo_rows two_pages))
   \<and> delete_seo gateway_ready 7 two_pages =
        (\<lparr>status = 404, success = False, message = None,
          error = Some ''SEO data not found'', seoData = None\<rparr>, two_pages)"
proof -
  have h1: "db gateway_ready = Some (Database db_file)" by (simp add: gateway_ready_def)
  have h2: "unique_ids two_pages"
    by (simp add: unique_ids_def two_pages_def about_row_def contact_row_def)
  have h3: "about_row \<in> set (seo_rows two_pages) \<and> seo_id about_row = 1"
    by (simp add: two_pages_def about_row_def)
  have h4: "7 \<notin> set (map seo_id (seo_rows two_pages))"
    by (simp add: two_pages_def about_row_def contact_row_def)
  have h5: "two_pages\<lparr>seo_rows := remove1 about_row (seo_rows two_pages)\<rparr>
      = \<lparr>seo_rows = [contact_row], sqlite_sequence = 2\<rparr>"
    by (simp add: two_pages_def)
  show ?thesis
    using h1 h2 h3 h4 h5
      delete_seo_removes_one [OF h1 h2, of about_row 1]
      delete_seo_removes_one [OF h1 h2, of about_row 7]
    by (metis snd_conv)
qed

text \<open>The delete of the scenario, evaluated: the counter stays at 1.\<close>

lemma delete_seo_about:
  "delete_seo gateway_ready 1 \<lparr>seo_rows = [about_row_updated], sqlite_sequence = 1\<rparr> =
     (\<lparr>status = 200, success = True,
       message = Some ''SEO data deleted successfully'', error = None, seoData = None\<rparr>,
      \<lparr>seo_rows = [], sqlite_sequence = 1\<rparr>)"
  by (simp add: delete_seo_def getDatabase_def gateway_ready_def sql_delete_def
      about_row_updated_def about_row_def)

section \<open>The schema's invariants\<close>

text \<open>
  The table the gateway creates satisfies the schema, and every statement that returns
  leaves a table that does.
\<close>

lemma schema_holds_empty: "schema_holds empty_table"
  by (simp add: schema_holds_def unique_ids_def unique_pagePaths_def sequence_bounds_ids_def
      empty_table_def)

lemma sql_insert_schema:
  assumes "schema_holds t" and "sql_insert p now t = Inr (i, t')"
  shows "schema_holds t'"
proof -
  from assms(2) obtain r where t': "t' = \<lparr>seo_rows = seo_rows t @ [r], sqlite_sequence = next_rowid t\<rparr>"
    and id: "seo_id r = next_rowid t" and path: "pagePath r \<notin> set (map pagePath (seo_rows t))"
    by (auto simp: sql_insert_def Let_def split: sum.splits if_splits)
  have "distinct (map seo_id (seo_rows t'))"
    using assms(1) next_rowid_unused [of t]
    by (simp add: t' id schema_holds_def unique_ids_def)
  moreover have "distinct (map pagePath (seo_rows t'))"
    using assms(1) path by (simp add: t' schema_holds_def unique_pagePaths_def)
  moreover have "list_all (\<lambda>x. seo_id x \<le> sqlite_sequence t') (seo_rows t')"
    using next_rowid_above_rows [of _ t] by (auto simp: t' id list_all_iff dest: less_imp_le)
  ultimately show ?thesis
    by (simp add: schema_holds_def unique_ids_def unique_pagePaths_def sequence_bounds_ids_def)
qed

lemma update_keeps_paths_unique:
  assumes "distinct (map seo_id rs)" and "distinct (map pagePath rs)"
    and "\<forall>x \<in> set rs. seo_id x \<noteq> i \<longrightarrow> pagePath x \<noteq> pp"
    and "\<And>x. pagePath (f x) = pp"
  shows "distinct (map pagePath (map (\<lambda>x. if seo_id x = i then f x else x) rs))"
  using assms(1-3)
proof (induction rs)
  case Nil
  show ?case by simp
next
  case (Cons x xs)
  have ih: "distinct (map pagePath (map (\<lambda>x. if seo_id x = i then f x else x) xs))"
    using Cons by simp
  have "pagePath (if seo_id x = i then f x else x)
      \<notin> set (map pagePath (map (\<lambda>x. if seo_id x = i then f x else x) xs))"
  proof (cases "seo_id x = i")
    case True
    have "\<forall>y \<in> set xs. seo_id y \<noteq> i" using Cons.prems(1) True by (auto simp: image_iff)
    then have "\<forall>y \<in> set xs. pagePath (if seo_id y = i then f y else y) \<noteq> pp"
      using Cons.prems(3) by simp
    then show ?thesis using True assms(4) by (auto simp: image_iff)
  next
    case False
    have a: "pagePath x \<noteq> pp" using Cons.prems(3) False by simp
    have b: "\<forall>y \<in> set xs. pagePath y \<noteq> pagePath x"
      using Cons.prems(2) by (auto simp: image_iff)
    show ?thesis using False a b assms(4) by (auto simp: image_iff)
  qed
  then show ?case using ih by simp
qed

lemma sql_update_schema:
  assumes "schema_holds t" and "sql_update p i now t = Inr (n, t')"
  shows "schema_holds t'"
proof (cases "list_ex (\<lambda>r. seo_id r = i) (seo_rows t)")
  case False
  then have "t' = t" using assms(2) by (simp add: sql_update_def)
  then show ?thesis using assms(1) by simp
next
  case True
  from assms(2) True obtain pp pt mt md where
    t': "t' = t\<lparr>seo_rows :=
            map (\<lambda>r. if seo_id r = i then set_columns pp pt mt md p now r else r) (seo_rows t)\<rparr>"
    and free: "\<not> list_ex (\<lambda>r. seo_id r \<noteq> i \<and> pagePath r = pp) (seo_rows t)"
    by (auto simp: sql_update_def split: sum.splits if_splits)
  have ids: "map seo_id (seo_rows t') = map seo_id (seo_rows t)"
    by (simp add: t' seo_id_set_columns)
  have d1: "distinct (map seo_id (seo_rows t))"
    and d2: "distinct (map pagePath (seo_rows t))"
    using assms(1) by (simp_all add: schema_holds_def unique_ids_def unique_pagePaths_def)
  have d3: "\<forall>x \<in> set (seo_rows t). seo_id x \<noteq> i \<longrightarrow> pagePath x \<noteq> pp"
    using free by (auto simp: list_ex_iff)
  have d4: "pagePath (set_columns pp pt mt md p now x) = pp" for x
    by (simp add: set_columns_def)
  have "distinct (map pagePath
      (map (\<lambda>r. if seo_id r = i then set_columns pp pt mt md p now r else r) (seo_rows t)))"
    by (rule update_keeps_paths_unique [OF d1 d2 d3 d4])
  then have "distinct (map pagePath (seo_rows t'))" by (simp add: t')
  moreover have "list_all (\<lambda>x. seo_id x \<le> sqlite_sequence t') (seo_rows t')"
    using assms(1)
    by (auto simp: t' schema_holds_def sequence_bounds_ids_def list_all_iff seo_id_set_columns)
  ultimately show ?thesis
    using assms(1) ids
    by (simp add: schema_holds_def unique_ids_def unique_pagePaths_def sequence_bounds_ids_def)
qed

lemma sql_delete_schema: "schema_holds t \<Longrightarrow> schema_holds (snd (sql_delete i t))"
  by (auto simp: sql_delete_def schema_holds_def unique_ids_def unique_pagePaths_def
      sequence_bounds_ids_def list_all_iff distinct_map_filter)

lemma route_keeps_schema:
  assumes "schema_holds t"
  shows "schema_holds (snd (route g now rq t))"
proof (cases rq)
  case GET_seo
  then show ?thesis using assms by (simp add: get_seo_def split: sum.splits)
next
  case (GET_seo_page p)
  then show ?thesis using assms by (simp add: get_seo_page_def split: sum.splits option.splits)
next
  case (POST_seo b)
  then show ?thesis using assms sql_insert_schema [OF assms]
    by (auto simp: post_seo_def split: sum.splits)
next
  case (PUT_seo i b)
  then show ?thesis using assms sql_update_schema [OF assms]
    by (auto simp: put_seo_def split: sum.splits)
next
  case (DELETE_seo i)
  then show ?thesis using assms sql_delete_schema [OF assms, of i]
    by (auto simp: delete_seo_def split: sum.splits prod.splits)
qed

text \<open>
  The \<^verbatim>\<open>AUTOINCREMENT\<close> counter never goes down, so an id above it has never been
  given to a record, deleted ones included.
\<close>

lemma route_sequence_grows: "sqlite_sequence t \<le> sqlite_sequence (snd (route g now rq t))"
proof (cases rq)
  case GET_seo
  then show ?thesis by (simp add: get_seo_def split: sum.splits)
next
  case (GET_seo_page p)
  then show ?thesis by (simp add: get_seo_page_def split: sum.splits option.splits)
next
  case (POST_seo b)
  have "sqlite_sequence t \<le> sqlite_sequence t'" if "sql_insert p now t = Inr (i, t')" for p i t'
    using that next_rowid_above_sequence [of t]
    by (auto simp: sql_insert_def Let_def split: sum.splits if_splits)
  then show ?thesis using POST_seo by (auto simp: post_seo_def split: sum.splits)
next
  case (PUT_seo i b)
  have "sqlite_sequence t' = sqlite_sequence t" if "sql_update p i now t = Inr (n, t')" for p n t'
    using that by (auto simp: sql_update_def split: sum.splits if_splits)
  then show ?thesis using PUT_seo by (auto simp: put_seo_def split: sum.splits)
next
  case (DELETE_seo i)
  then show ?thesis by (simp add: delete_seo_def sql_delete_def split: sum.splits)
qed

lemma sql_insert_duplicate:
  assumes "p_pagePath p = Some pp" and "pp \<in> set (map pagePath (seo_rows t))"
  shows "\<exists>e. sql_insert p now t = Inl e"
proof (cases "p_pageTitle p")
  case None
  then show ?thesis using assms by (simp add: sql_insert_def)
next
  case pt: (Some a)
  show ?thesis
  proof (cases "p_metaTitle p")
    case None
    then show ?thesis using assms pt by (simp add: sql_insert_def)
  next
    case mt: (Some b)
    show ?thesis
    proof (cases "p_metaDescription p")
      case None
      then show ?thesis using assms pt mt by (simp add: sql_insert_def)
    next
      case (Some c)
      then show ?thesis using assms pt mt by (simp add: sql_insert_def)
    qed
  qed
qed

lemma one_row_of_path:
  "distinct (map pagePath rs) \<Longrightarrow> pp \<in> set (map pagePath rs) \<Longrightarrow>
   length (filter (\<lambda>r. pagePath r = pp) rs) = 1"
proof (induction rs)
  case Nil
  then show ?case by simp
next
  case (Cons x xs)
  show ?case
  proof (cases "pagePath x = pp")
    case True
    then have "\<forall>y \<in> set xs. pagePath y \<noteq> pp" using Cons.prems(1) by (auto simp: image_iff)
    then have "filter (\<lambda>r. pagePath r = pp) xs = []" by (simp add: filter_empty_conv)
    then show ?thesis using True by simp
  next
    case False
    then show ?thesis using Cons by auto
  qed
qed

text \<open>
  C7. Every route takes a table that satisfies the schema, unique \<^verbatim>\<open>pagePath\<close>
  included, to one that does. A create whose \<^verbatim>\<open>pagePath\<close> a stored record already
  holds answers 500 with \<^verbatim>\<open>success: false\<close>, a response and not a crash, and leaves
  the table as it was, so that the table still holds exactly one record of that path.
\<close>

theorem pagePath_stays_unique:
  "(schema_holds t \<longrightarrow>
      schema_holds (snd (route g now rq t)) \<and> unique_pagePaths (snd (route g now rq t)))
   \<and> (body_pagePath b = Some pp \<and> pp \<in> set (map pagePath (seo_rows t)) \<longrightarrow>
        status (fst (post_seo g now b t)) = 500
        \<and> success (fst (post_seo g now b t)) = False
        \<and> snd (post_seo g now b t) = t)
   \<and> (unique_pagePaths t \<and> body_pagePath b = Some pp
        \<and> pp \<in> set (map pagePath (seo_rows t)) \<longrightarrow>
        length (filter (\<lambda>r. pagePath r = pp) (seo_rows (snd (post_seo g now b t)))) = 1)"
proof -
  have inv: "schema_holds (snd (route g now rq t)) \<and> unique_pagePaths (snd (route g now rq t))"
    if "schema_holds t"
    using route_keeps_schema [OF that, of g now rq] by (simp add: schema_holds_def)
  have dup: "status (fst (post_seo g now b t)) = 500
        \<and> success (fst (post_seo g now b t)) = False
        \<and> snd (post_seo g now b t) = t"
    if "body_pagePath b = Some pp" "pp \<in> set (map pagePath (seo_rows t))"
  proof -
    have "p_pagePath (run_arguments b) = Some pp" using that(1) by (simp add: run_arguments_def)
    from sql_insert_duplicate [OF this that(2), of now]
    obtain e where "sql_insert (run_arguments b) now t = Inl e" by blast
    then show ?thesis by (simp add: post_seo_def caught_def split: sum.splits)
  qed
  have one: "length (filter (\<lambda>r. pagePath r = pp) (seo_rows (snd (post_seo g now b t)))) = 1"
    if "unique_pagePaths t" "body_pagePath b = Some pp" "pp \<in> set (map pagePath (seo_rows t))"
    using dup [OF that(2,3)] one_row_of_path [OF _ that(3)] that(1)
    by (simp add: unique_pagePaths_def)
  show ?thesis using inv dup one by blast
qed

theorem pagePath_stays_unique_witness:
  "schema_holds about_table
   \<and> schema_holds (snd (route gateway_ready 300 (POST_seo about_body) about_table))
   \<and> unique_pagePaths (snd (route gateway_ready 300 (POST_seo about_body) about_table))
   \<and> body_pagePath about_body = Some ''/about''
   \<and> ''/about'' \<in> set (map pagePath (seo_rows about_table))
   \<and> status (fst (post_seo gateway_ready 300 about_body about_table)) = 500
   \<and> success (fst (post_seo gateway_ready 300 about_body about_table)) = False
   \<and> snd (post_seo gateway_ready 300 about_body about_table) = about_table
   \<and> unique_pagePaths about_table
   \<and> length (filter (\<lambda>r. pagePath r = ''/about'')
        (seo_rows (snd (post_seo gateway_ready 300 about_body about_table)))) = 1"
proof -
  have h1: "schema_holds about_table"
    by (simp add: schema_holds_def unique_ids_def unique_pagePaths_def sequence_bounds_ids_def
        about_table_def about_row_def)
  have h2: "body_pagePath about_body = Some ''/about''" by (simp add: about_body_def)
  have h3: "''/about'' \<in> set (map pagePath (seo_rows about_table))"
    by (simp add: about_table_def about_row_def)
  have h4: "unique_pagePaths about_table" using h1 by (simp add: schema_holds_def)
  show ?thesis
    using h1 h2 h3 h4
      pagePath_stays_unique [where t = about_table and g = gateway_ready and now = 300
        and rq = "POST_seo about_body" and b = about_body and pp = "''/about''"]
    by blast
qed

text \<open>The second create of the scenario's page, evaluated.\<close>

lemma post_seo_about_twice:
  "post_seo gateway_ready 300 about_body about_table =
     (\<lparr>status = 500, success = False, message = None,
       error = Some ''UNIQUE constraint failed: seo.pagePath'', seoData = None\<rparr>,
      about_table)"
  by (simp add: post_seo_def getDatabase_def gateway_ready_def sql_insert_def
      run_arguments_def about_body_def about_table_def about_row_def caught_def
      unique_failed_def)

end
